theory Spec2Isabelle
  imports Complex_Main "HOL-Library.Multiset" "HOL-Library.Char_ord" "HOL-Library.List_Lexorder"
begin

section \<open>Data model of \<open>distributed_tracer.py\<close>\<close>

text \<open>
  The tracer keeps its records in two SQL tables, \<open>traces\<close> and \<open>spans\<close>, and one
  Python dictionary, \<open>active_traces\<close>. A table is the list of its rows in insertion
  order; a column that the code leaves \<open>NULL\<close> at insertion is an \<open>option\<close>.

  Instants are seconds since the epoch and durations are milliseconds, both exact
  rationals: the rounding of Python floats and of the \<open>DECIMAL(10,2)\<close> columns and the
  width limits of the \<open>VARCHAR\<close> columns are left out, the primary keys and the foreign
  key of the schema are kept. The two clocks of the program, PostgreSQL's \<open>NOW()\<close> and
  Python's \<open>time.time()\<close>, and the identifier that \<open>uuid.uuid4()\<close> draws are arguments
  of the operation that reads them.

  The fields of the two row types carry the prefixes \<open>t_\<close> and \<open>s_\<close>, because both
  tables have columns of the same name.
\<close>

record trace_row =
  t_trace_id :: string
  t_service_name :: string
  t_operation_name :: string
  t_start_time :: rat
  t_end_time :: "rat option"
  t_duration_ms :: "rat option"
  t_status :: string
  t_metadata :: "string option"

record span_row =
  s_span_id :: string
  s_trace_id :: string
  s_parent_span_id :: "string option"
  s_service_name :: string
  s_operation_name :: string
  s_start_time :: rat
  s_end_time :: "rat option"
  s_duration_ms :: "rat option"
  s_db_query :: "string option"
  s_rows_affected :: "int option"
  s_status :: string

text \<open>The database behind \<open>self.conn\<close>: the rows of its two tables.\<close>

record database =
  traces :: "trace_row list"
  spans :: "span_row list"

text \<open>An entry of \<open>self.active_traces\<close>.\<close>

record trace_info =
  service :: string
  operation :: string
  start_time :: rat

text \<open>The object \<open>DistributedTracer\<close>.\<close>

record tracer =
  conn :: database
  active_traces :: "string \<rightharpoonup> trace_info"

text \<open>
  The exceptions that leave a method. \<open>TypeError\<close> and \<open>ValueError\<close> are Python's;
  \<open>UniqueViolation\<close> and \<open>ForeignKeyViolation\<close> are raised by the database driver
  for a statement that breaks a key of the schema. The source defines no exception
  of its own.
\<close>

datatype error = TypeError | ValueError | UniqueViolation | ForeignKeyViolation

text \<open>The records that the recorder hands to \<open>logger\<close>, by call site.\<close>

datatype log_record =
    Started_trace string string string
  | Trace_not_found string
  | Ended_trace string rat

section \<open>Trace recorder\<close>

text \<open>
  \<open>start_trace\<close>: the \<open>INSERT\<close> fails on a \<open>trace_id\<close> that the table holds already
  (primary key), before the dictionary is touched.
\<close>

definition start_trace ::
  "tracer \<Rightarrow> string \<Rightarrow> rat \<Rightarrow> rat \<Rightarrow> string \<Rightarrow> string \<Rightarrow> error + (tracer \<times> log_record \<times> string)" where
  "start_trace self uuid4 NOW time service_name operation_name =
     (let trace_id = uuid4 in
      if trace_id \<in> set (map t_trace_id (traces (conn self))) then Inl UniqueViolation
      else
        Inr (self\<lparr>conn := (conn self)\<lparr>traces := traces (conn self) @
                  [\<lparr>t_trace_id = trace_id, t_service_name = service_name,
                    t_operation_name = operation_name, t_start_time = NOW,
                    t_end_time = None, t_duration_ms = None,
                    t_status = ''in_progress'', t_metadata = None\<rparr>]\<rparr>,
                  active_traces := (active_traces self)(trace_id \<mapsto>
                    \<lparr>service = service_name, operation = operation_name, start_time = time\<rparr>)\<rparr>,
             Started_trace (take 8 trace_id) service_name operation_name,
             trace_id))"

text \<open>The \<open>UPDATE traces ... WHERE trace_id = %s\<close> of \<open>end_trace\<close>.\<close>

definition update_trace :: "rat \<Rightarrow> rat \<Rightarrow> string \<Rightarrow> string \<Rightarrow> trace_row \<Rightarrow> trace_row" where
  "update_trace NOW duration status trace_id r =
     (if t_trace_id r = trace_id
      then r\<lparr>t_end_time := Some NOW, t_duration_ms := Some duration, t_status := status\<rparr>
      else r)"

definition end_trace :: "tracer \<Rightarrow> rat \<Rightarrow> rat \<Rightarrow> string \<Rightarrow> string \<Rightarrow> tracer \<times> log_record" where
  "end_trace self time NOW trace_id status =
     (case active_traces self trace_id of
        None \<Rightarrow> (self, Trace_not_found trace_id)
      | Some trace_info \<Rightarrow>
          (let duration = (time - start_time trace_info) * 1000 in
           (self\<lparr>conn := (conn self)\<lparr>traces :=
                     map (update_trace NOW duration status trace_id) (traces (conn self))\<rparr>,
                 active_traces := (active_traces self)(trace_id := None)\<rparr>,
            Ended_trace (take 8 trace_id) duration)))"

text \<open>
  \<open>create_span\<close>: the \<open>INSERT\<close> fails on a \<open>span_id\<close> that the table holds already
  (primary key) and on a \<open>trace_id\<close> with no row in \<open>traces\<close> (foreign key).
\<close>

definition create_span ::
  "tracer \<Rightarrow> string \<Rightarrow> rat \<Rightarrow> string \<Rightarrow> string \<Rightarrow> string \<Rightarrow> string option \<Rightarrow> error + (tracer \<times> string)" where
  "create_span self uuid4 NOW trace_id service_name operation_name parent_span_id =
     (let span_id = uuid4 in
      if span_id \<in> set (map s_span_id (spans (conn self))) then Inl UniqueViolation
      else if trace_id \<notin> set (map t_trace_id (traces (conn self))) then Inl ForeignKeyViolation
      else
        Inr (self\<lparr>conn := (conn self)\<lparr>spans := spans (conn self) @
                  [\<lparr>s_span_id = span_id, s_trace_id = trace_id,
                    s_parent_span_id = parent_span_id, s_service_name = service_name,
                    s_operation_name = operation_name, s_start_time = NOW,
                    s_end_time = None, s_duration_ms = None, s_db_query = None,
                    s_rows_affected = None, s_status = ''in_progress''\<rparr>]\<rparr>\<rparr>,
             span_id))"

text \<open>The \<open>UPDATE spans ... WHERE span_id = %s\<close> of \<open>end_span\<close>.\<close>

definition update_span ::
  "rat \<Rightarrow> string option \<Rightarrow> int \<Rightarrow> string \<Rightarrow> string \<Rightarrow> span_row \<Rightarrow> span_row" where
  "update_span NOW query rows_affected status span_id r =
     (if s_span_id r = span_id
      then r\<lparr>s_end_time := Some NOW,
             s_duration_ms := Some ((NOW - s_start_time r) * 1000),
             s_db_query := query,
             s_rows_affected := Some rows_affected,
             s_status := status\<rparr>
      else r)"

definition end_span ::
  "tracer \<Rightarrow> rat \<Rightarrow> string \<Rightarrow> string option \<Rightarrow> int \<Rightarrow> string \<Rightarrow> error + tracer" where
  "end_span self NOW span_id query rows_affected status =
     Inr (self\<lparr>conn := (conn self)\<lparr>spans :=
            map (update_span NOW query rows_affected status span_id) (spans (conn self))\<rparr>\<rparr>)"

section \<open>Trace analyzer\<close>

text \<open>
  Python's truth value of a \<open>str\<close> that may be \<open>None\<close>, as \<open>if query:\<close> and
  \<open>if not parent_id\<close> take it: \<open>None\<close> and the empty string are false.
\<close>

definition truthy :: "string option \<Rightarrow> bool" where
  "truthy v = (case v of None \<Rightarrow> False | Some s \<Rightarrow> s \<noteq> [])"

text \<open>
  What \<open>cursor.fetchone()\<close> returns for \<open>SELECT ... FROM traces WHERE trace_id = %s\<close>:
  the row of the trace, or \<open>None\<close>.
\<close>

definition select_trace :: "database \<Rightarrow> string \<Rightarrow> trace_row option" where
  "select_trace db trace_id = find (\<lambda>r. t_trace_id r = trace_id) (traces db)"

text \<open>
  The rows that \<open>cursor.fetchall()\<close> may return for
  \<open>SELECT ... FROM spans WHERE trace_id = %s ORDER BY start_time\<close>: the spans of the
  trace, in an order that ascends in \<open>start_time\<close>. SQL leaves the order of rows with
  equal \<open>start_time\<close> open, so the result is a relation and the fetched list is an
  argument of \<open>analyze_trace\<close>.
\<close>

definition select_spans :: "database \<Rightarrow> string \<Rightarrow> span_row list \<Rightarrow> bool" where
  "select_spans db trace_id rows \<longleftrightarrow>
     mset rows = mset (filter (\<lambda>r. s_trace_id r = trace_id) (spans db)) \<and>
     sorted_wrt (\<lambda>a b. s_start_time a \<le> s_start_time b) rows"

text \<open>What the loop prints for one span.\<close>

record span_entry =
  e_indent :: string
  e_service :: string
  e_operation :: string
  e_duration :: rat
  e_query :: "(string \<times> int option) option"
  e_status :: string

definition span_entry_of :: "span_row \<Rightarrow> rat \<Rightarrow> span_entry" where
  "span_entry_of sp dur =
     \<lparr>e_indent = (if \<not> truthy (s_parent_span_id sp) then ''  '' else ''    ''),
      e_service = s_service_name sp,
      e_operation = s_operation_name sp,
      e_duration = dur,
      e_query = (case s_db_query sp of
                   None \<Rightarrow> None
                 | Some query \<Rightarrow> if query \<noteq> [] then Some (take 60 query, s_rows_affected sp) else None),
      e_status = s_status sp\<rparr>"

text \<open>
  The loop \<open>for span in spans\<close> (its row is \<open>sp\<close> here), with the printed entries and
  \<open>total_db_time\<close> as its state. Formatting a \<open>None\<close> duration with \<open>:.2f\<close> raises \<open>TypeError\<close>.
\<close>

fun span_loop :: "span_row list \<Rightarrow> span_entry list \<times> rat \<Rightarrow> error + span_entry list \<times> rat" where
  "span_loop [] acc = Inr acc"
| "span_loop (sp # rest) (printed, total_db_time) =
     (case s_duration_ms sp of
        None \<Rightarrow> Inl TypeError
      | Some dur \<Rightarrow>
          span_loop rest
            (printed @ [span_entry_of sp dur],
             if truthy (s_db_query sp) then total_db_time + dur else total_db_time))"

text \<open>
  \<open>max(spans, key=lambda x: x[4])\<close>: \<open>ValueError\<close> on the empty list; otherwise the
  first element whose key no later one exceeds. Comparing with a \<open>None\<close> key raises
  \<open>TypeError\<close>.
\<close>

fun max_from :: "span_row \<Rightarrow> span_row list \<Rightarrow> error + span_row" where
  "max_from best [] = Inr best"
| "max_from best (x # xs) =
     (case (s_duration_ms x, s_duration_ms best) of
        (Some kx, Some kb) \<Rightarrow> max_from (if kx > kb then x else best) xs
      | _ \<Rightarrow> Inl TypeError)"

definition py_max :: "span_row list \<Rightarrow> error + span_row" where
  "py_max xs = (case xs of [] \<Rightarrow> Inl ValueError | x # rest \<Rightarrow> max_from x rest)"

record report =
  r_trace_id :: string
  r_service :: string
  r_operation :: string
  r_duration :: rat
  r_status :: string
  r_span_count :: nat
  r_entries :: "span_entry list"
  r_total_db_time :: rat
  r_db_percentage :: rat
  r_non_db_time :: rat
  r_non_db_percentage :: rat
  r_slowest_span :: span_row

text \<open>
  \<open>analyze_trace\<close>, in the order of its statements: \<open>Inr None\<close> is the return after
  \<open>Trace not found\<close>; the header formats \<open>duration\<close> with \<open>:.2f\<close>, which raises
  \<open>TypeError\<close> on \<open>None\<close>; then the loop, the percentages, \<open>max\<close>, and the footer,
  which formats the slowest span's duration.
\<close>

definition analyze_trace :: "tracer \<Rightarrow> string \<Rightarrow> span_row list \<Rightarrow> error + report option" where
  "analyze_trace self trace_id fetchall =
     (case select_trace (conn self) trace_id of
        None \<Rightarrow> Inr None
      | Some trace_info \<Rightarrow>
         (case t_duration_ms trace_info of
            None \<Rightarrow> Inl TypeError
          | Some duration \<Rightarrow>
             (case span_loop fetchall ([], 0) of
                Inl e \<Rightarrow> Inl e
              | Inr (printed, total_db_time) \<Rightarrow>
                 (let db_percentage =
                        (if duration > 0 then total_db_time / duration * 100 else 0)
                  in case py_max fetchall of
                       Inl e \<Rightarrow> Inl e
                     | Inr slowest_span \<Rightarrow>
                        (case s_duration_ms slowest_span of
                           None \<Rightarrow> Inl TypeError
                         | Some _ \<Rightarrow>
                            Inr (Some
                              \<lparr>r_trace_id = trace_id,
                               r_service = t_service_name trace_info,
                               r_operation = t_operation_name trace_info,
                               r_duration = duration,
                               r_status = t_status trace_info,
                               r_span_count = length fetchall,
                               r_entries = printed,
                               r_total_db_time = total_db_time,
                               r_db_percentage = db_percentage,
                               r_non_db_time = duration - total_db_time,
                               r_non_db_percentage = 100 - db_percentage,
                               r_slowest_span = slowest_span\<rparr>))))))"

section \<open>Service performance aggregator\<close>

text \<open>
  The SQL aggregates over one group. \<open>COUNT(*)\<close> counts every row; \<open>AVG\<close>, \<open>MAX\<close>
  and \<open>MIN\<close> skip \<open>NULL\<close> and are \<open>NULL\<close> when no value is left.
\<close>

definition group_durations :: "string \<Rightarrow> span_row list \<Rightarrow> rat list" where
  "group_durations name rows =
     List.map_filter s_duration_ms (filter (\<lambda>r. s_service_name r = name) rows)"

definition sql_avg :: "rat list \<Rightarrow> rat option" where
  "sql_avg ds = (if ds = [] then None else Some (sum_list ds / of_nat (length ds)))"

definition sql_max :: "rat list \<Rightarrow> rat option" where
  "sql_max ds = (case ds of [] \<Rightarrow> None | d # rest \<Rightarrow> Some (fold max rest d))"

definition sql_min :: "rat list \<Rightarrow> rat option" where
  "sql_min ds = (case ds of [] \<Rightarrow> None | d # rest \<Rightarrow> Some (fold min rest d))"

record service_stats =
  g_service_name :: string
  span_count :: nat
  avg_duration :: "rat option"
  max_duration :: "rat option"
  min_duration :: "rat option"

definition group_row :: "span_row list \<Rightarrow> string \<Rightarrow> service_stats" where
  "group_row rows name =
     \<lparr>g_service_name = name,
      span_count = length (filter (\<lambda>r. s_service_name r = name) rows),
      avg_duration = sql_avg (group_durations name rows),
      max_duration = sql_max (group_durations name rows),
      min_duration = sql_min (group_durations name rows)\<rparr>"

text \<open>\<open>GROUP BY service_name\<close>: one row for each service name of the table.\<close>

definition group_by_service :: "span_row list \<Rightarrow> service_stats list" where
  "group_by_service rows = map (group_row rows) (remdups (map s_service_name rows))"

text \<open>
  \<open>ORDER BY avg_duration DESC\<close>: PostgreSQL sorts \<open>NULL\<close> as the largest value, so
  it comes first in a descending order.
\<close>

definition desc_order :: "rat option \<Rightarrow> rat option \<Rightarrow> bool" where
  "desc_order a b =
     (case a of None \<Rightarrow> True | Some x \<Rightarrow> (case b of None \<Rightarrow> False | Some y \<Rightarrow> y \<le> x))"

text \<open>
  The rows that \<open>cursor.fetchall()\<close> may return for the query of
  \<open>get_service_performance\<close>: the groups, in an order that descends in
  \<open>avg_duration\<close>. The query has no second sort key, so SQL leaves the order of rows
  with equal \<open>avg_duration\<close> open.
\<close>

definition select_service_performance :: "database \<Rightarrow> service_stats list \<Rightarrow> bool" where
  "select_service_performance db rows \<longleftrightarrow>
     mset rows = mset (group_by_service (spans db)) \<and>
     sorted_wrt (\<lambda>a b. desc_order (avg_duration a) (avg_duration b)) rows"

text \<open>
  The printing loop of \<open>get_service_performance\<close>: formatting a \<open>None\<close> aggregate with
  \<open>:.2f\<close> raises \<open>TypeError\<close>.
\<close>

fun get_service_performance ::
  "service_stats list \<Rightarrow> error + (string \<times> nat \<times> rat \<times> rat \<times> rat) list" where
  "get_service_performance [] = Inr []"
| "get_service_performance (row # rest) =
     (case (avg_duration row, max_duration row, min_duration row) of
        (Some avg, Some max_dur, Some min_dur) \<Rightarrow>
          (case get_service_performance rest of
             Inl e \<Rightarrow> Inl e
           | Inr out \<Rightarrow> Inr ((g_service_name row, span_count row, avg, max_dur, min_dur) # out))
      | _ \<Rightarrow> Inl TypeError)"

text \<open>
  The order that the specification asks of the aggregate: average descending, equal
  averages by service name ascending.
\<close>

definition avg_desc_name_asc :: "service_stats \<Rightarrow> service_stats \<Rightarrow> bool" where
  "avg_desc_name_asc a b \<longleftrightarrow>
     desc_order (avg_duration a) (avg_duration b) \<and>
     (avg_duration a = avg_duration b \<longrightarrow> g_service_name a \<le> g_service_name b)"

section \<open>Runs of the tracer\<close>

text \<open>
  A call of a public method, with the values that it reads from its environment. A
  call that raises leaves the state as the statements before the raise made it.
\<close>

datatype event =
    Start_trace string rat rat string string
  | End_trace rat rat string string
  | Create_span string rat string string string "string option"
  | End_span rat string "string option" int string
  | Analyze_trace string "span_row list"
  | Get_service_performance "service_stats list"

fun exec :: "tracer \<Rightarrow> event \<Rightarrow> tracer" where
  "exec self (Start_trace uuid4 NOW time service_name operation_name) =
     (case start_trace self uuid4 NOW time service_name operation_name of
        Inl e \<Rightarrow> self | Inr (self', _) \<Rightarrow> self')"
| "exec self (End_trace time NOW trace_id status) =
     fst (end_trace self time NOW trace_id status)"
| "exec self (Create_span uuid4 NOW trace_id service_name operation_name parent_span_id) =
     (case create_span self uuid4 NOW trace_id service_name operation_name parent_span_id of
        Inl e \<Rightarrow> self | Inr (self', _) \<Rightarrow> self')"
| "exec self (End_span NOW span_id query rows_affected status) =
     (case end_span self NOW span_id query rows_affected status of
        Inl e \<Rightarrow> self | Inr self' \<Rightarrow> self')"
| "exec self (Analyze_trace trace_id fetchall) = self"
| "exec self (Get_service_performance fetchall) = self"

definition run :: "tracer \<Rightarrow> event list \<Rightarrow> tracer" where
  "run self evs = foldl exec self evs"

text \<open>The tracer as \<open>__init__\<close> leaves it, on a database with any contents.\<close>

definition initial :: "tracer \<Rightarrow> bool" where
  "initial self \<longleftrightarrow> active_traces self = Map.empty"

text \<open>
  The readings of \<open>NOW()\<close> and of \<open>time.time()\<close> that a call makes, given the last
  readings before it; a pair is (\<open>NOW()\<close>, \<open>time.time()\<close>).
\<close>

fun clock_readings :: "rat \<times> rat \<Rightarrow> event \<Rightarrow> rat \<times> rat" where
  "clock_readings (NOW, time) (Start_trace uuid4 NOW' time' service_name operation_name) =
     (NOW', time')"
| "clock_readings (NOW, time) (End_trace time' NOW' trace_id status) = (NOW', time')"
| "clock_readings (NOW, time)
     (Create_span uuid4 NOW' trace_id service_name operation_name parent_span_id) = (NOW', time)"
| "clock_readings (NOW, time) (End_span NOW' span_id query rows_affected status) = (NOW', time)"
| "clock_readings (NOW, time) (Analyze_trace trace_id fetchall) = (NOW, time)"
| "clock_readings (NOW, time) (Get_service_performance fetchall) = (NOW, time)"

text \<open>Neither clock runs backwards along a sequence of calls.\<close>

fun clocks_monotone :: "rat \<times> rat \<Rightarrow> event list \<Rightarrow> bool" where
  "clocks_monotone clk [] = True"
| "clocks_monotone clk (e # evs) =
     (fst clk \<le> fst (clock_readings clk e) \<and> snd clk \<le> snd (clock_readings clk e) \<and>
      clocks_monotone (clock_readings clk e) evs)"

section \<open>Predicates of the statements\<close>

text \<open>A span that ended with a duration below, or not above, a bound.\<close>

definition shorter :: "rat \<Rightarrow> span_row \<Rightarrow> bool" where
  "shorter km s = (case s_duration_ms s of None \<Rightarrow> False | Some k \<Rightarrow> k < km)"

definition not_longer :: "rat \<Rightarrow> span_row \<Rightarrow> bool" where
  "not_longer km s = (case s_duration_ms s of None \<Rightarrow> False | Some k \<Rightarrow> k \<le> km)"

text \<open>
  The invariant that ties the dictionary to the table: a trace that is still in
  \<open>active_traces\<close> has no row with an end timestamp or a duration.
\<close>

definition open_rows_null :: "tracer \<Rightarrow> bool" where
  "open_rows_null self \<longleftrightarrow>
     (\<forall>r\<in>set (traces (conn self)).
        active_traces self (t_trace_id r) \<noteq> None \<longrightarrow>
          t_end_time r = None \<and> t_duration_ms r = None)"

text \<open>
  A state whose records are consistent with the last clock readings: no trace starts
  after the last \<open>NOW()\<close>, no trace ends before it starts, no duration is negative,
  and no entry of \<open>active_traces\<close> starts after the last \<open>time.time()\<close>.
\<close>

definition timely :: "rat \<times> rat \<Rightarrow> tracer \<Rightarrow> bool" where
  "timely clk self \<longleftrightarrow>
     (\<forall>r\<in>set (traces (conn self)).
        t_start_time r \<le> fst clk \<and>
        (case t_end_time r of None \<Rightarrow> True | Some e \<Rightarrow> t_start_time r \<le> e) \<and>
        (case t_duration_ms r of None \<Rightarrow> True | Some d \<Rightarrow> 0 \<le> d)) \<and>
     (\<forall>trace_id info. active_traces self trace_id = Some info \<longrightarrow> start_time info \<le> snd clk)"

section \<open>A tracer state for the examples\<close>

text \<open>
  One closed trace with three ended spans, two of them with the same duration; one
  trace in progress with one ended span; one closed trace without spans; one closed
  trace of duration zero.
\<close>

definition trace_t1 :: trace_row where
  "trace_t1 = \<lparr>t_trace_id = ''t1'', t_service_name = ''api-gateway'',
     t_operation_name = ''create_order'', t_start_time = 100,
     t_end_time = Some (10021 / 100), t_duration_ms = Some 210,
     t_status = ''success'', t_metadata = None\<rparr>"

definition trace_t2 :: trace_row where
  "trace_t2 = \<lparr>t_trace_id = ''t2'', t_service_name = ''api-gateway'',
     t_operation_name = ''create_order'', t_start_time = 200,
     t_end_time = None, t_duration_ms = None,
     t_status = ''in_progress'', t_metadata = None\<rparr>"

definition trace_t3 :: trace_row where
  "trace_t3 = \<lparr>t_trace_id = ''t3'', t_service_name = ''api-gateway'',
     t_operation_name = ''ping'', t_start_time = 300,
     t_end_time = Some (60001 / 200), t_duration_ms = Some 5,
     t_status = ''success'', t_metadata = None\<rparr>"

definition trace_t4 :: trace_row where
  "trace_t4 = \<lparr>t_trace_id = ''t4'', t_service_name = ''api-gateway'',
     t_operation_name = ''noop'', t_start_time = 400,
     t_end_time = Some 400, t_duration_ms = Some 0,
     t_status = ''success'', t_metadata = None\<rparr>"

definition span_a :: span_row where
  "span_a = \<lparr>s_span_id = ''a'', s_trace_id = ''t1'', s_parent_span_id = None,
     s_service_name = ''user-service'', s_operation_name = ''validate_user'',
     s_start_time = 100, s_end_time = Some (2001 / 20), s_duration_ms = Some 50,
     s_db_query = Some ''SELECT * FROM users WHERE user_id = 123'',
     s_rows_affected = Some 1, s_status = ''success''\<rparr>"

definition span_b :: span_row where
  "span_b = \<lparr>s_span_id = ''b'', s_trace_id = ''t1'', s_parent_span_id = None,
     s_service_name = ''inventory-service'', s_operation_name = ''check_stock'',
     s_start_time = 2001 / 20, s_end_time = Some (10013 / 100), s_duration_ms = Some 80,
     s_db_query = Some ''SELECT stock FROM products WHERE product_id = 456'',
     s_rows_affected = Some 1, s_status = ''success''\<rparr>"

definition span_c :: span_row where
  "span_c = \<lparr>s_span_id = ''c'', s_trace_id = ''t1'', s_parent_span_id = Some ''b'',
     s_service_name = ''notification-service'', s_operation_name = ''send_email'',
     s_start_time = 10013 / 100, s_end_time = Some (10021 / 100), s_duration_ms = Some 80,
     s_db_query = None, s_rows_affected = Some 0, s_status = ''success''\<rparr>"

definition span_d :: span_row where
  "span_d = \<lparr>s_span_id = ''d'', s_trace_id = ''t2'', s_parent_span_id = None,
     s_service_name = ''user-service'', s_operation_name = ''validate_user'',
     s_start_time = 200, s_end_time = Some (20001 / 100), s_duration_ms = Some 10,
     s_db_query = Some ''SELECT * FROM users WHERE user_id = 7'',
     s_rows_affected = Some 1, s_status = ''success''\<rparr>"

definition span_e :: span_row where
  "span_e = \<lparr>s_span_id = ''e'', s_trace_id = ''t4'', s_parent_span_id = None,
     s_service_name = ''cache-service'', s_operation_name = ''lookup'',
     s_start_time = 400, s_end_time = Some 400, s_duration_ms = Some 0,
     s_db_query = Some ''SELECT 1'', s_rows_affected = Some 1, s_status = ''success''\<rparr>"

definition demo_db :: database where
  "demo_db = \<lparr>traces = [trace_t1, trace_t2, trace_t3, trace_t4],
              spans = [span_a, span_b, span_c, span_d, span_e]\<rparr>"

definition demo :: tracer where
  "demo = \<lparr>conn = demo_db,
           active_traces = [''t2'' \<mapsto>
             \<lparr>service = ''api-gateway'', operation = ''create_order'', start_time = 200\<rparr>]\<rparr>"

text \<open>The reports of \<open>analyze_trace\<close> on the traces \<open>t1\<close> and \<open>t4\<close> of the example.\<close>

definition report_t1 :: report where
  "report_t1 = \<lparr>r_trace_id = ''t1'', r_service = ''api-gateway'',
     r_operation = ''create_order'', r_duration = 210, r_status = ''success'',
     r_span_count = 3,
     r_entries = [span_entry_of span_a 50, span_entry_of span_b 80, span_entry_of span_c 80],
     r_total_db_time = 130, r_db_percentage = 1300 / 21,
     r_non_db_time = 80, r_non_db_percentage = 800 / 21,
     r_slowest_span = span_b\<rparr>"

definition report_t4 :: report where
  "report_t4 = \<lparr>r_trace_id = ''t4'', r_service = ''api-gateway'',
     r_operation = ''noop'', r_duration = 0, r_status = ''success'',
     r_span_count = 1,
     r_entries = [span_entry_of span_e 0],
     r_total_db_time = 0, r_db_percentage = 0,
     r_non_db_time = 0, r_non_db_percentage = 100,
     r_slowest_span = span_e\<rparr>"



text \<open>
  A tracer on an empty database, and a run on it: a trace is started, gets a span
  that is ended, and is ended; \<open>trace_x_open\<close> and \<open>trace_x\<close> are its row before and
  after \<open>end_trace\<close>.
\<close>

definition fresh :: tracer where
  "fresh = \<lparr>conn = \<lparr>traces = [], spans = []\<rparr>, active_traces = Map.empty\<rparr>"

definition demo_calls :: "event list" where
  "demo_calls =
     [Start_trace ''x'' 10 10 ''api-gateway'' ''create_order'',
      Create_span ''s'' 11 ''x'' ''user-service'' ''validate_user'' None,
      End_span 12 ''s'' (Some ''SELECT 1'') 1 ''success'']"

definition trace_x_open :: trace_row where
  "trace_x_open = \<lparr>t_trace_id = ''x'', t_service_name = ''api-gateway'',
     t_operation_name = ''create_order'', t_start_time = 10,
     t_end_time = None, t_duration_ms = None,
     t_status = ''in_progress'', t_metadata = None\<rparr>"

definition trace_x :: trace_row where
  "trace_x = \<lparr>t_trace_id = ''x'', t_service_name = ''api-gateway'',
     t_operation_name = ''create_order'', t_start_time = 10,
     t_end_time = Some 13, t_duration_ms = Some 3500,
     t_status = ''success'', t_metadata = None\<rparr>"


text \<open>
  The groups of the example's span table, and a second table with the spans of two
  services \<open>X\<close> (durations 10 and 30) and \<open>Y\<close> (duration 50).
\<close>

definition stats_user :: service_stats where
  "stats_user = \<lparr>g_service_name = ''user-service'', span_count = 2,
     avg_duration = Some 30, max_duration = Some 50, min_duration = Some 10\<rparr>"

definition stats_inventory :: service_stats where
  "stats_inventory = \<lparr>g_service_name = ''inventory-service'', span_count = 1,
     avg_duration = Some 80, max_duration = Some 80, min_duration = Some 80\<rparr>"

definition stats_notification :: service_stats where
  "stats_notification = \<lparr>g_service_name = ''notification-service'', span_count = 1,
     avg_duration = Some 80, max_duration = Some 80, min_duration = Some 80\<rparr>"

definition stats_cache :: service_stats where
  "stats_cache = \<lparr>g_service_name = ''cache-service'', span_count = 1,
     avg_duration = Some 0, max_duration = Some 0, min_duration = Some 0\<rparr>"

definition span_of :: "string \<Rightarrow> string \<Rightarrow> rat \<Rightarrow> rat \<Rightarrow> span_row" where
  "span_of span_id service_name NOW dur =
     \<lparr>s_span_id = span_id, s_trace_id = ''t1'', s_parent_span_id = None,
      s_service_name = service_name, s_operation_name = ''work'',
      s_start_time = NOW, s_end_time = Some (NOW + dur / 1000), s_duration_ms = Some dur,
      s_db_query = None, s_rows_affected = Some 0, s_status = ''success''\<rparr>"

definition xy_db :: database where
  "xy_db = \<lparr>traces = [trace_t1],
            spans = [span_of ''1'' ''X'' 100 10, span_of ''2'' ''Y'' 101 50,
                     span_of ''3'' ''X'' 102 30]\<rparr>"

definition stats_x :: service_stats where
  "stats_x = \<lparr>g_service_name = ''X'', span_count = 2,
     avg_duration = Some 20, max_duration = Some 30, min_duration = Some 10\<rparr>"

definition stats_y :: service_stats where
  "stats_y = \<lparr>g_service_name = ''Y'', span_count = 1,
     avg_duration = Some 50, max_duration = Some 50, min_duration = Some 50\<rparr>"

section \<open>Recorder: ending traces and spans\<close>

text \<open>
  C5. \<open>end_trace\<close> on a \<open>trace_id\<close> that is not in \<open>active_traces\<close> logs the warning
  \<open>Trace ... not found\<close> and returns the tracer as it was: table rows and dictionary
  are unchanged. Whatever the first \<open>end_trace\<close> on an id did, a second one on the same
  id finds it absent and changes nothing.
\<close>

theorem end_trace_not_found:
  "(active_traces self trace_id = None \<longrightarrow>
      end_trace self time NOW trace_id status = (self, Trace_not_found trace_id)) \<and>
   end_trace (fst (end_trace self time NOW trace_id status)) time' NOW' trace_id status' =
     (fst (end_trace self time NOW trace_id status), Trace_not_found trace_id)"
  by (simp add: end_trace_def Let_def split: option.splits)

theorem end_trace_not_found_witness:
  "active_traces demo ''t1'' = None \<and>
   end_trace demo 500 501 ''t1'' ''success'' = (demo, Trace_not_found ''t1'')"
  using end_trace_not_found [of demo "''t1''" 500 501 "''success''"]
  by (simp add: demo_def)







section \<open>Analyzer: the loop, the maximum and the report\<close>

lemma span_loop_Inr:
  "span_loop xs (p, t) = Inr (p', t') \<Longrightarrow>
     (\<forall>s\<in>set xs. s_duration_ms s \<noteq> None) \<and>
     t' = t + sum_list (List.map_filter s_duration_ms (filter (\<lambda>s. truthy (s_db_query s)) xs)) \<and>
     length p' = length p + length xs"
proof (induction xs arbitrary: p t)
  case Nil
  then show ?case by simp
next
  case (Cons x xs)
  from Cons.prems obtain dur where dur: "s_duration_ms x = Some dur"
    by (auto split: option.splits)
  let ?t = "if truthy (s_db_query x) then t + dur else t"
  from Cons.prems dur have "span_loop xs (p @ [span_entry_of x dur], ?t) = Inr (p', t')"
    by simp
  from Cons.IH [OF this] dur show ?case
    by simp
qed

lemma span_loop_total:
  "(\<forall>s\<in>set xs. s_duration_ms s \<noteq> None) \<Longrightarrow> \<exists>r. span_loop xs acc = Inr r"
proof (induction xs arbitrary: acc)
  case Nil
  then show ?case by simp
next
  case (Cons x xs)
  then show ?case by (cases acc) (auto split: option.splits)
qed

lemma span_loop_Inl:
  "span_loop xs acc = Inl e \<Longrightarrow> e = TypeError \<and> (\<exists>s\<in>set xs. s_duration_ms s = None)"
proof (induction xs arbitrary: acc)
  case Nil
  then show ?case by simp
next
  case (Cons x xs)
  then show ?case by (cases acc) (auto split: option.splits)
qed

lemma max_from_total:
  "s_duration_ms b \<noteq> None \<Longrightarrow> (\<forall>s\<in>set xs. s_duration_ms s \<noteq> None) \<Longrightarrow>
     \<exists>m. max_from b xs = Inr m \<and> s_duration_ms m \<noteq> None"
proof (induction xs arbitrary: b)
  case Nil
  then show ?case by simp
next
  case (Cons x xs)
  from Cons.prems obtain kx kb where k: "s_duration_ms x = Some kx" "s_duration_ms b = Some kb"
    by auto
  have "\<exists>m. max_from (if kx > kb then x else b) xs = Inr m \<and> s_duration_ms m \<noteq> None"
    using Cons.prems k by (intro Cons.IH) auto
  with k show ?case by simp
qed

lemma max_from_Inl: "max_from b xs = Inl e \<Longrightarrow> e = TypeError"
  by (induction xs arbitrary: b) (auto split: option.splits if_splits)

text \<open>
  The loop invariant of \<open>max\<close>: the best element so far sits between the elements
  before it, all shorter, and those after it, none longer.
\<close>

lemma max_from_split:
  "max_from b xs = Inr m \<Longrightarrow> s_duration_ms b = Some kb \<Longrightarrow>
   \<forall>s\<in>set p. shorter kb s \<Longrightarrow> \<forall>s\<in>set q. not_longer kb s \<Longrightarrow>
     \<exists>pre post km. p @ b # q @ xs = pre @ m # post \<and> s_duration_ms m = Some km \<and>
       (\<forall>s\<in>set pre. shorter km s) \<and> (\<forall>s\<in>set post. not_longer km s)"
proof (induction xs arbitrary: b kb p q)
  case Nil
  then show ?case by auto
next
  case (Cons x xs)
  from Cons.prems(1,2) obtain kx where kx: "s_duration_ms x = Some kx"
    by (auto split: option.splits)
  show ?case
  proof (cases "kx > kb")
    case True
    with Cons.prems kx have run: "max_from x xs = Inr m" by simp
    have p: "\<forall>s\<in>set (p @ b # q). shorter kx s"
      using Cons.prems(2,3,4) True
      by (fastforce simp: shorter_def not_longer_def split: option.splits)
    have q: "\<forall>s\<in>set ([]::span_row list). not_longer kx s" by simp
    from Cons.IH [OF run kx p q] show ?thesis by simp
  next
    case False
    with Cons.prems kx have run: "max_from b xs = Inr m" by simp
    have q: "\<forall>s\<in>set (q @ [x]). not_longer kb s"
      using Cons.prems(4) False kx by (auto simp: not_longer_def)
    from Cons.IH [OF run Cons.prems(2,3) q] show ?thesis by simp
  qed
qed

lemma py_max_first:
  assumes "py_max xs = Inr m" "s_duration_ms m = Some km"
  shows "\<exists>pre post. xs = pre @ m # post \<and>
       (\<forall>s\<in>set pre. shorter km s) \<and> (\<forall>s\<in>set post. not_longer km s)"
proof (cases xs)
  case Nil
  with assms show ?thesis by (simp add: py_max_def)
next
  case (Cons b rest)
  with assms have run: "max_from b rest = Inr m" by (simp add: py_max_def)
  show ?thesis
  proof (cases "s_duration_ms b")
    case None
    show ?thesis
    proof (cases rest)
      case Nil
      with run None assms(2) show ?thesis by simp
    next
      case (Cons a list)
      with run None show ?thesis by (simp split: option.splits)
    qed
  next
    case (Some kb)
    from max_from_split [OF run Some, of "[]" "[]"] Cons assms(2) show ?thesis by auto
  qed
qed

lemma py_max_total:
  "xs \<noteq> [] \<Longrightarrow> (\<forall>s\<in>set xs. s_duration_ms s \<noteq> None) \<Longrightarrow>
     \<exists>m. py_max xs = Inr m \<and> s_duration_ms m \<noteq> None"
proof (cases xs)
  case Nil
  assume "xs \<noteq> []"
  with Nil show ?thesis by simp
next
  case (Cons b rest)
  assume "\<forall>s\<in>set xs. s_duration_ms s \<noteq> None"
  with Cons have "s_duration_ms b \<noteq> None" "\<forall>s\<in>set rest. s_duration_ms s \<noteq> None"
    by simp_all
  from max_from_total [OF this] Cons show ?thesis
    by (simp add: py_max_def)
qed

text \<open>What a report says about the run that produced it.\<close>

lemma analyze_trace_report:
  assumes "analyze_trace self trace_id rows = Inr (Some rep)"
  shows "\<exists>t d printed. select_trace (conn self) trace_id = Some t \<and>
           t_duration_ms t = Some d \<and> r_duration rep = d \<and>
           span_loop rows ([], 0) = Inr (printed, r_total_db_time rep) \<and>
           r_db_percentage rep = (if 0 < d then r_total_db_time rep / d * 100 else 0) \<and>
           py_max rows = Inr (r_slowest_span rep) \<and>
           s_duration_ms (r_slowest_span rep) \<noteq> None"
  using assms
  by (auto simp: analyze_trace_def Let_def split: option.splits sum.splits prod.splits)

lemma analyze_trace_completes:
  assumes "select_trace (conn self) trace_id = Some t"
    and "t_duration_ms t = Some d" and "rows \<noteq> []"
    and "\<forall>s\<in>set rows. s_duration_ms s \<noteq> None"
  shows "\<exists>rep. analyze_trace self trace_id rows = Inr (Some rep)"
proof -
  from span_loop_total [OF assms(4)] obtain printed total
    where loop: "span_loop rows ([], 0) = Inr (printed, total)"
    by (metis surj_pair)
  from py_max_total [OF assms(3,4)] obtain m k
    where m: "py_max rows = Inr m" "s_duration_ms m = Some k"
    by auto
  from assms(1,2) loop m show ?thesis
    by (simp add: analyze_trace_def Let_def)
qed

lemma analyze_trace_null_duration:
  "select_trace (conn self) trace_id = Some t \<Longrightarrow> t_duration_ms t = None \<Longrightarrow>
     analyze_trace self trace_id rows = Inl TypeError"
  by (simp add: analyze_trace_def)

lemma analyze_trace_completes_iff:
  assumes "select_trace (conn self) trace_id = Some t"
  shows "(\<exists>rep. analyze_trace self trace_id rows = Inr (Some rep)) \<longleftrightarrow>
           t_duration_ms t \<noteq> None \<and> rows \<noteq> [] \<and> (\<forall>s\<in>set rows. s_duration_ms s \<noteq> None)"
proof
  assume "\<exists>rep. analyze_trace self trace_id rows = Inr (Some rep)"
  then obtain rep where rep: "analyze_trace self trace_id rows = Inr (Some rep)" ..
  from analyze_trace_report [OF rep] assms obtain printed where
    d: "t_duration_ms t \<noteq> None" and
    loop: "span_loop rows ([], 0) = Inr (printed, r_total_db_time rep)" and
    m: "py_max rows = Inr (r_slowest_span rep)"
    by auto
  from m have "rows \<noteq> []" by (auto simp: py_max_def)
  with d span_loop_Inr [OF loop]
  show "t_duration_ms t \<noteq> None \<and> rows \<noteq> [] \<and> (\<forall>s\<in>set rows. s_duration_ms s \<noteq> None)"
    by simp
next
  assume "t_duration_ms t \<noteq> None \<and> rows \<noteq> [] \<and> (\<forall>s\<in>set rows. s_duration_ms s \<noteq> None)"
  with assms show "\<exists>rep. analyze_trace self trace_id rows = Inr (Some rep)"
    by (auto intro: analyze_trace_completes)
qed

lemmas demo_defs = demo_def demo_db_def trace_t1_def trace_t2_def trace_t3_def trace_t4_def
  span_a_def span_b_def span_c_def span_d_def span_e_def

text \<open>
  C1, as the code has it. \<open>analyze_trace\<close> is written for a completed trace (its
  docstring: ``Analyze a completed trace''). On a trace record whose \<open>duration_ms\<close>
  is null it raises \<open>TypeError\<close>: the header formats the duration before any metric
  is computed. It completes exactly when the duration of the trace and of every
  loaded span is non-null and at least one span is loaded; there a duration that is
  not positive gives \<open>db_percentage = 0\<close>, with no division.
\<close>

theorem analyze_trace_needs_duration:
  assumes "select_trace (conn self) trace_id = Some t"
  shows "(t_duration_ms t = None \<longrightarrow> analyze_trace self trace_id rows = Inl TypeError) \<and>
         ((\<exists>rep. analyze_trace self trace_id rows = Inr (Some rep)) \<longleftrightarrow>
            t_duration_ms t \<noteq> None \<and> rows \<noteq> [] \<and> (\<forall>s\<in>set rows. s_duration_ms s \<noteq> None)) \<and>
         (\<forall>rep. analyze_trace self trace_id rows = Inr (Some rep) \<longrightarrow>
            \<not> 0 < r_duration rep \<longrightarrow> r_db_percentage rep = 0)"
proof (intro conjI allI impI)
  assume "t_duration_ms t = None"
  with assms show "analyze_trace self trace_id rows = Inl TypeError"
    by (rule analyze_trace_null_duration)
next
  show "(\<exists>rep. analyze_trace self trace_id rows = Inr (Some rep)) \<longleftrightarrow>
          t_duration_ms t \<noteq> None \<and> rows \<noteq> [] \<and> (\<forall>s\<in>set rows. s_duration_ms s \<noteq> None)"
    using assms by (rule analyze_trace_completes_iff)
next
  fix rep
  assume "analyze_trace self trace_id rows = Inr (Some rep)" "\<not> 0 < r_duration rep"
  with analyze_trace_report [of self trace_id rows rep] show "r_db_percentage rep = 0"
    by auto
qed

theorem analyze_trace_needs_duration_witness:
  "select_trace (conn demo) ''t2'' = Some trace_t2 \<and> t_duration_ms trace_t2 = None \<and>
   analyze_trace demo ''t2'' [span_d] = Inl TypeError \<and>
   select_trace (conn demo) ''t4'' = Some trace_t4 \<and>
   analyze_trace demo ''t4'' [span_e] = Inr (Some report_t4) \<and>
   \<not> 0 < r_duration report_t4 \<and> r_db_percentage report_t4 = 0"
proof -
  have t2: "select_trace (conn demo) ''t2'' = Some trace_t2"
    by (simp add: select_trace_def demo_defs)
  have t4: "select_trace (conn demo) ''t4'' = Some trace_t4"
    by (simp add: select_trace_def demo_defs)
  have null: "t_duration_ms trace_t2 = None"
    by (simp add: trace_t2_def)
  have rep: "analyze_trace demo ''t4'' [span_e] = Inr (Some report_t4)"
    by (simp add: analyze_trace_def select_trace_def py_max_def truthy_def span_entry_of_def
        report_t4_def demo_defs)
  have zero: "\<not> 0 < r_duration report_t4"
    by (simp add: report_t4_def)
  from analyze_trace_needs_duration [OF t2, of "[span_d]"]
    analyze_trace_needs_duration [OF t4, of "[span_e]"] t2 t4 null rep zero
  show ?thesis by blast
qed

text \<open>
  C1 as stated fails: the trace \<open>t2\<close> of the example is in progress, its
  \<open>duration_ms\<close> is null, its one span has ended, and \<open>analyze_trace\<close> raises
  \<open>TypeError\<close>.
\<close>

theorem analyze_in_progress_counterexample:
  "select_trace (conn demo) ''t2'' = Some trace_t2 \<and> t_duration_ms trace_t2 = None \<and>
   t_status trace_t2 = ''in_progress'' \<and> select_spans (conn demo) ''t2'' [span_d] \<and>
   analyze_trace demo ''t2'' [span_d] = Inl TypeError"
  by (simp add: analyze_trace_def select_trace_def select_spans_def demo_defs)

text \<open>
  C2, at the failing input: the trace \<open>t3\<close> of the example is closed and has no span.
  The query returns the empty list, the loop runs zero times, and \<open>max\<close> is taken of
  the empty list: \<open>analyze_trace\<close> ends in Python's \<open>ValueError\<close>.
\<close>

theorem analyze_trace_without_spans:
  "select_trace (conn demo) ''t3'' = Some trace_t3 \<and> t_duration_ms trace_t3 = Some 5 \<and>
   select_spans (conn demo) ''t3'' [] \<and>
   py_max [] = Inl ValueError \<and>
   analyze_trace demo ''t3'' [] = Inl ValueError"
  by (simp add: analyze_trace_def select_trace_def select_spans_def py_max_def demo_defs)

lemma truthy_iff: "truthy v \<longleftrightarrow> (\<exists>q. v = Some q \<and> q \<noteq> [])"
  by (cases v) (simp_all add: truthy_def)

lemma select_spans_set:
  "select_spans db trace_id rows \<Longrightarrow>
     set rows = {r \<in> set (spans db). s_trace_id r = trace_id}"
proof -
  assume "select_spans db trace_id rows"
  then have "mset rows = mset (filter (\<lambda>r. s_trace_id r = trace_id) (spans db))"
    by (simp add: select_spans_def)
  then have "set rows = set (filter (\<lambda>r. s_trace_id r = trace_id) (spans db))"
    by (rule mset_eq_setD)
  then show ?thesis by simp
qed

text \<open>
  C4. For every result of the span query: \<open>analyze_trace\<close> reports a slowest span
  whenever the trace record has a duration, at least one span is loaded and every
  loaded span has ended. The slowest span of a report is a loaded span of the trace;
  every loaded span before it in the load order is strictly shorter and every one
  after it is not longer, so that it is the first span of maximal duration in the
  order of the query, which ascends in \<open>start_time\<close>: no span of the same duration
  started before it.
\<close>

theorem slowest_span_is_first_longest:
  assumes "select_spans (conn self) trace_id rows"
  shows "(\<forall>t d. select_trace (conn self) trace_id = Some t \<longrightarrow> t_duration_ms t = Some d \<longrightarrow>
            rows \<noteq> [] \<longrightarrow> (\<forall>s\<in>set rows. s_duration_ms s \<noteq> None) \<longrightarrow>
            (\<exists>rep. analyze_trace self trace_id rows = Inr (Some rep))) \<and>
         (\<forall>rep. analyze_trace self trace_id rows = Inr (Some rep) \<longrightarrow>
            (\<exists>pre post d. rows = pre @ r_slowest_span rep # post \<and>
               s_duration_ms (r_slowest_span rep) = Some d \<and>
               (\<forall>s\<in>set pre. \<exists>k. s_duration_ms s = Some k \<and> k < d) \<and>
               (\<forall>s\<in>set post. \<exists>k. s_duration_ms s = Some k \<and> k \<le> d) \<and>
               (\<forall>s\<in>set rows. s_duration_ms s = Some d \<longrightarrow>
                  s_start_time (r_slowest_span rep) \<le> s_start_time s) \<and>
               r_slowest_span rep \<in> set (spans (conn self)) \<and>
               s_trace_id (r_slowest_span rep) = trace_id))"
proof (intro conjI allI impI)
  fix t d
  assume "select_trace (conn self) trace_id = Some t" "t_duration_ms t = Some d"
    "rows \<noteq> []" "\<forall>s\<in>set rows. s_duration_ms s \<noteq> None"
  then show "\<exists>rep. analyze_trace self trace_id rows = Inr (Some rep)"
    by (rule analyze_trace_completes)
next
  fix rep
  assume rep: "analyze_trace self trace_id rows = Inr (Some rep)"
  let ?m = "r_slowest_span rep"
  from analyze_trace_report [OF rep] obtain d where
    m: "py_max rows = Inr ?m" and d: "s_duration_ms ?m = Some d"
    by auto
  from py_max_first [OF m d] obtain pre post where
    split: "rows = pre @ ?m # post" and
    pre: "\<forall>s\<in>set pre. shorter d s" and post: "\<forall>s\<in>set post. not_longer d s"
    by blast
  from assms have "sorted_wrt (\<lambda>a b. s_start_time a \<le> s_start_time b) rows"
    by (simp add: select_spans_def)
  with split have later: "\<forall>s\<in>set post. s_start_time ?m \<le> s_start_time s"
    by (simp add: sorted_wrt_append)
  have first: "\<forall>s\<in>set rows. s_duration_ms s = Some d \<longrightarrow> s_start_time ?m \<le> s_start_time s"
  proof (intro ballI impI)
    fix s assume s: "s \<in> set rows" "s_duration_ms s = Some d"
    with pre have "s \<notin> set pre" by (auto simp: shorter_def)
    with s(1) split have "s = ?m \<or> s \<in> set post" by auto
    with later show "s_start_time ?m \<le> s_start_time s" by auto
  qed
  from split have "?m \<in> set rows" by simp
  with select_spans_set [OF assms]
  have member: "?m \<in> set (spans (conn self))" "s_trace_id ?m = trace_id"
    by auto
  have pre': "\<forall>s\<in>set pre. \<exists>k. s_duration_ms s = Some k \<and> k < d"
    using pre by (auto simp: shorter_def split: option.splits)
  have post': "\<forall>s\<in>set post. \<exists>k. s_duration_ms s = Some k \<and> k \<le> d"
    using post by (auto simp: not_longer_def split: option.splits)
  from split d pre' post' first member
  show "\<exists>pre post d. rows = pre @ ?m # post \<and>
               s_duration_ms ?m = Some d \<and>
               (\<forall>s\<in>set pre. \<exists>k. s_duration_ms s = Some k \<and> k < d) \<and>
               (\<forall>s\<in>set post. \<exists>k. s_duration_ms s = Some k \<and> k \<le> d) \<and>
               (\<forall>s\<in>set rows. s_duration_ms s = Some d \<longrightarrow>
                  s_start_time ?m \<le> s_start_time s) \<and>
               ?m \<in> set (spans (conn self)) \<and>
               s_trace_id ?m = trace_id"
    by blast
qed

theorem slowest_span_is_first_longest_witness:
  "select_spans (conn demo) ''t1'' [span_a, span_b, span_c] \<and>
   select_trace (conn demo) ''t1'' = Some trace_t1 \<and> t_duration_ms trace_t1 = Some 210 \<and>
   analyze_trace demo ''t1'' [span_a, span_b, span_c] = Inr (Some report_t1) \<and>
   r_slowest_span report_t1 = span_b \<and>
   s_duration_ms span_b = Some 80 \<and> s_duration_ms span_c = Some 80 \<and>
   s_start_time span_b \<le> s_start_time span_c \<and>
   span_b \<in> set (spans (conn demo)) \<and> s_trace_id span_b = ''t1''"
proof -
  have rows: "select_spans (conn demo) ''t1'' [span_a, span_b, span_c]"
    by (simp add: select_spans_def demo_defs)
  have trace: "select_trace (conn demo) ''t1'' = Some trace_t1 \<and> t_duration_ms trace_t1 = Some 210"
    by (simp add: select_trace_def demo_defs)
  have rep: "analyze_trace demo ''t1'' [span_a, span_b, span_c] = Inr (Some report_t1)"
    by (simp add: analyze_trace_def select_trace_def py_max_def truthy_def span_entry_of_def
        report_t1_def demo_defs)
  have slowest: "r_slowest_span report_t1 = span_b"
    by (simp add: report_t1_def)
  have durs: "s_duration_ms span_b = Some 80" "s_duration_ms span_c = Some 80"
    by (simp_all add: span_b_def span_c_def)
  have c: "span_c \<in> set [span_a, span_b, span_c]" by simp
  from slowest_span_is_first_longest [OF rows] rep slowest durs c
  have "s_start_time span_b \<le> s_start_time span_c \<and>
        span_b \<in> set (spans (conn demo)) \<and> s_trace_id span_b = ''t1''"
    by (metis option.inject)
  with rows trace rep slowest durs show ?thesis by simp
qed

text \<open>
  C6. In a report, \<open>total_db_time\<close> is the sum of the durations of exactly the loaded
  spans whose query is neither \<open>None\<close> nor empty (no loaded span has a null duration
  then), and \<open>db_percentage\<close> is \<open>total_db_time / duration * 100\<close> for a positive
  duration of the trace record and \<open>0\<close> otherwise.
\<close>

theorem db_time_and_percentage:
  assumes "analyze_trace self trace_id rows = Inr (Some rep)"
  shows "(\<forall>s\<in>set rows. s_duration_ms s \<noteq> None) \<and>
         r_total_db_time rep =
           sum_list (List.map_filter s_duration_ms
             (filter (\<lambda>s. \<exists>q. s_db_query s = Some q \<and> q \<noteq> []) rows)) \<and>
         (\<exists>t. select_trace (conn self) trace_id = Some t \<and>
              t_duration_ms t = Some (r_duration rep)) \<and>
         r_db_percentage rep =
           (if 0 < r_duration rep then r_total_db_time rep / r_duration rep * 100 else 0)"
proof -
  from analyze_trace_report [OF assms] obtain t printed where
    t: "select_trace (conn self) trace_id = Some t" "t_duration_ms t = Some (r_duration rep)" and
    loop: "span_loop rows ([], 0) = Inr (printed, r_total_db_time rep)" and
    pct: "r_db_percentage rep =
            (if 0 < r_duration rep then r_total_db_time rep / r_duration rep * 100 else 0)"
    by auto
  from span_loop_Inr [OF loop]
  have "\<forall>s\<in>set rows. s_duration_ms s \<noteq> None"
    and "r_total_db_time rep =
           sum_list (List.map_filter s_duration_ms (filter (\<lambda>s. truthy (s_db_query s)) rows))"
    by simp_all
  with t pct show ?thesis by (simp add: truthy_iff)
qed

theorem db_time_and_percentage_witness:
  "analyze_trace demo ''t1'' [span_a, span_b, span_c] = Inr (Some report_t1) \<and>
   r_total_db_time report_t1 = 50 + 80 \<and>
   r_db_percentage report_t1 = 130 / 210 * 100 \<and>
   analyze_trace demo ''t4'' [span_e] = Inr (Some report_t4) \<and>
   r_db_percentage report_t4 = 0"
proof -
  have t1: "analyze_trace demo ''t1'' [span_a, span_b, span_c] = Inr (Some report_t1)"
    by (simp add: analyze_trace_def select_trace_def py_max_def truthy_def span_entry_of_def
        report_t1_def demo_defs)
  have t4: "analyze_trace demo ''t4'' [span_e] = Inr (Some report_t4)"
    by (simp add: analyze_trace_def select_trace_def py_max_def truthy_def span_entry_of_def
        report_t4_def demo_defs)
  from db_time_and_percentage [OF t1] db_time_and_percentage [OF t4] t1 t4 show ?thesis
    by (simp add: report_t1_def report_t4_def)
qed

section \<open>Runs: what a call does to the trace table\<close>

lemma exec_traces:
  "traces (conn (exec self e)) =
     (case e of
        Start_trace uuid4 NOW time service_name operation_name \<Rightarrow>
          if uuid4 \<in> set (map t_trace_id (traces (conn self))) then traces (conn self)
          else traces (conn self) @
            [\<lparr>t_trace_id = uuid4, t_service_name = service_name,
              t_operation_name = operation_name, t_start_time = NOW,
              t_end_time = None, t_duration_ms = None,
              t_status = ''in_progress'', t_metadata = None\<rparr>]
      | End_trace time NOW trace_id status \<Rightarrow>
          (case active_traces self trace_id of
             None \<Rightarrow> traces (conn self)
           | Some info \<Rightarrow>
               map (update_trace NOW ((time - start_time info) * 1000) status trace_id)
                 (traces (conn self)))
      | _ \<Rightarrow> traces (conn self))"
  by (cases e)
    (simp_all add: start_trace_def end_trace_def create_span_def end_span_def Let_def
      split: option.splits)

lemma exec_active_traces:
  "active_traces (exec self e) =
     (case e of
        Start_trace uuid4 NOW time service_name operation_name \<Rightarrow>
          if uuid4 \<in> set (map t_trace_id (traces (conn self))) then active_traces self
          else (active_traces self)(uuid4 \<mapsto>
            \<lparr>service = service_name, operation = operation_name, start_time = time\<rparr>)
      | End_trace time NOW trace_id status \<Rightarrow> (active_traces self)(trace_id := None)
      | _ \<Rightarrow> active_traces self)"
  by (cases e)
    (auto simp: start_trace_def end_trace_def create_span_def end_span_def Let_def
      split: option.splits)

lemma run_snoc: "run self (evs @ [e]) = exec (run self evs) e"
  by (simp add: run_def)

lemma open_rows_null_exec:
  assumes "open_rows_null self"
  shows "open_rows_null (exec self e)"
proof (cases e)
  case (Start_trace uuid4 NOW time service_name operation_name)
  with assms show ?thesis
    by (auto simp: open_rows_null_def exec_traces exec_active_traces simp del: exec.simps)
next
  case (End_trace time NOW trace_id status)
  with assms show ?thesis
    by (auto simp: open_rows_null_def exec_traces exec_active_traces update_trace_def
        simp del: exec.simps split: option.splits)
next
  case (Create_span uuid4 NOW trace_id service_name operation_name parent_span_id)
  with assms show ?thesis
    by (simp add: open_rows_null_def exec_traces exec_active_traces del: exec.simps)
next
  case (End_span NOW span_id query rows_affected status)
  with assms show ?thesis
    by (simp add: open_rows_null_def exec_traces exec_active_traces del: exec.simps)
next
  case (Analyze_trace trace_id fetchall)
  with assms show ?thesis by simp
next
  case (Get_service_performance fetchall)
  with assms show ?thesis by simp
qed

lemma open_rows_null_run:
  "initial self0 \<Longrightarrow> open_rows_null (run self0 evs)"
proof (induction evs rule: rev_induct)
  case Nil
  then show ?case by (simp add: run_def initial_def open_rows_null_def)
next
  case (snoc e evs)
  then show ?case by (simp add: run_snoc open_rows_null_exec)
qed

lemma clocks_monotone_append:
  "clocks_monotone clk (xs @ ys) \<longleftrightarrow>
     clocks_monotone clk xs \<and> clocks_monotone (foldl clock_readings clk xs) ys"
  by (induction xs arbitrary: clk) auto

lemma timely_exec:
  assumes "timely clk self"
    and "fst clk \<le> fst (clock_readings clk e)" and "snd clk \<le> snd (clock_readings clk e)"
  shows "timely (clock_readings clk e) (exec self e)"
proof (cases clk)
  case (Pair NOW time)
  show ?thesis
  proof (cases e)
    case (Start_trace uuid4 NOW' time' service_name operation_name)
    with assms Pair show ?thesis
      by (fastforce simp: timely_def exec_traces exec_active_traces simp del: exec.simps)
  next
    case (End_trace time' NOW' trace_id status)
    with assms Pair show ?thesis
      by (fastforce simp: timely_def exec_traces exec_active_traces update_trace_def
          simp del: exec.simps split: option.splits if_splits)
  next
    case (Create_span uuid4 NOW' trace_id service_name operation_name parent_span_id)
    with assms Pair show ?thesis
      by (fastforce simp: timely_def exec_traces exec_active_traces simp del: exec.simps)
  next
    case (End_span NOW' span_id query rows_affected status)
    with assms Pair show ?thesis
      by (fastforce simp: timely_def exec_traces exec_active_traces simp del: exec.simps)
  next
    case (Analyze_trace trace_id fetchall)
    with assms Pair show ?thesis by simp
  next
    case (Get_service_performance fetchall)
    with assms Pair show ?thesis by simp
  qed
qed

lemma timely_run:
  "timely clk self0 \<Longrightarrow> clocks_monotone clk evs \<Longrightarrow>
     timely (foldl clock_readings clk evs) (run self0 evs)"
proof (induction evs rule: rev_induct)
  case Nil
  then show ?case by (simp add: run_def)
next
  case (snoc e evs)
  from snoc.prems(2) have mono: "clocks_monotone clk evs"
    and step: "fst (foldl clock_readings clk evs) \<le>
                 fst (clock_readings (foldl clock_readings clk evs) e)"
              "snd (foldl clock_readings clk evs) \<le>
                 snd (clock_readings (foldl clock_readings clk evs) e)"
    by (simp_all add: clocks_monotone_append)
  from snoc.IH [OF snoc.prems(1) mono] have "timely (foldl clock_readings clk evs) (run self0 evs)" .
  from timely_exec [OF this step] show ?case
    by (simp add: run_snoc)
qed

lemma exec_old_row:
  assumes "open_rows_null self" and "i < length (traces (conn self))"
  shows "i < length (traces (conn (exec self e))) \<and>
         (traces (conn (exec self e)) ! i = traces (conn self) ! i \<or>
          (\<exists>time NOW status info.
             e = End_trace time NOW (t_trace_id (traces (conn self) ! i)) status \<and>
             active_traces self (t_trace_id (traces (conn self) ! i)) = Some info \<and>
             active_traces (exec self e) (t_trace_id (traces (conn self) ! i)) = None \<and>
             t_end_time (traces (conn self) ! i) = None \<and>
             t_duration_ms (traces (conn self) ! i) = None \<and>
             traces (conn (exec self e)) ! i =
               (traces (conn self) ! i)\<lparr>t_end_time := Some NOW,
                  t_duration_ms := Some ((time - start_time info) * 1000),
                  t_status := status\<rparr>))"
proof (cases e)
  case (Start_trace uuid4 NOW time service_name operation_name)
  with assms(2) show ?thesis
    by (simp add: exec_traces nth_append del: exec.simps)
next
  case (End_trace time NOW trace_id status)
  let ?r = "traces (conn self) ! i"
  show ?thesis
  proof (cases "active_traces self trace_id")
    case None
    with End_trace assms(2) show ?thesis
      by (simp add: exec_traces del: exec.simps)
  next
    case (Some info)
    with End_trace assms(2) have row:
      "traces (conn (exec self e)) ! i =
         update_trace NOW ((time - start_time info) * 1000) status trace_id ?r"
      and len: "i < length (traces (conn (exec self e)))"
      by (simp_all add: exec_traces del: exec.simps)
    show ?thesis
    proof (cases "t_trace_id ?r = trace_id")
      case True
      from assms(2) have "?r \<in> set (traces (conn self))" by simp
      with assms(1) True Some have null: "t_end_time ?r = None" "t_duration_ms ?r = None"
        by (auto simp: open_rows_null_def)
      from End_trace have gone: "active_traces (exec self e) trace_id = None"
        by (simp add: exec_active_traces del: exec.simps)
      from row True have "traces (conn (exec self e)) ! i =
          ?r\<lparr>t_end_time := Some NOW, t_duration_ms := Some ((time - start_time info) * 1000),
             t_status := status\<rparr>"
        by (simp add: update_trace_def)
      with len End_trace True Some null gone show ?thesis by blast
    next
      case False
      with row len show ?thesis by (simp add: update_trace_def)
    qed
  qed
next
  case (Create_span uuid4 NOW trace_id service_name operation_name parent_span_id)
  with assms(2) show ?thesis by (simp add: exec_traces del: exec.simps)
next
  case (End_span NOW span_id query rows_affected status)
  with assms(2) show ?thesis by (simp add: exec_traces del: exec.simps)
next
  case (Analyze_trace trace_id fetchall)
  with assms(2) show ?thesis by simp
next
  case (Get_service_performance fetchall)
  with assms(2) show ?thesis by simp
qed

lemma exec_new_row:
  assumes "length (traces (conn self)) \<le> j" and "j < length (traces (conn (exec self e)))"
  shows "\<exists>uuid4 NOW time service_name operation_name.
           e = Start_trace uuid4 NOW time service_name operation_name \<and>
           traces (conn (exec self e)) ! j =
             \<lparr>t_trace_id = uuid4, t_service_name = service_name,
              t_operation_name = operation_name, t_start_time = NOW,
              t_end_time = None, t_duration_ms = None,
              t_status = ''in_progress'', t_metadata = None\<rparr>"
proof (cases e)
  case (Start_trace uuid4 NOW time service_name operation_name)
  with assms have "uuid4 \<notin> set (map t_trace_id (traces (conn self)))"
    by (auto simp: exec_traces simp del: exec.simps)
  with assms Start_trace have "j = length (traces (conn self))"
    by (simp add: exec_traces del: exec.simps)
  with Start_trace \<open>uuid4 \<notin> set (map t_trace_id (traces (conn self)))\<close> show ?thesis
    by (simp add: exec_traces del: exec.simps)
next
  case (End_trace time NOW trace_id status)
  with assms show ?thesis
    by (simp add: exec_traces del: exec.simps split: option.splits)
next
  case (Create_span uuid4 NOW trace_id service_name operation_name parent_span_id)
  with assms show ?thesis by (simp add: exec_traces del: exec.simps)
next
  case (End_span NOW span_id query rows_affected status)
  with assms show ?thesis by (simp add: exec_traces del: exec.simps)
next
  case (Analyze_trace trace_id fetchall)
  with assms show ?thesis by simp
next
  case (Get_service_performance fetchall)
  with assms show ?thesis by simp
qed

lemma exec_length: "length (traces (conn self)) \<le> length (traces (conn (exec self e)))"
  by (cases e) (simp_all add: exec_traces del: exec.simps split: option.splits)

lemma timely_end:
  assumes "timely clk self" and "clocks_monotone clk [End_trace time NOW trace_id status]"
    and "r \<in> set (traces (conn self))" and "active_traces self trace_id = Some info"
  shows "t_start_time r \<le> NOW \<and> 0 \<le> (time - start_time info) * 1000"
proof (cases clk)
  case (Pair NOW0 time0)
  with assms(2) have "NOW0 \<le> NOW" "time0 \<le> time" by simp_all
  moreover from assms(1,3,4) Pair have "t_start_time r \<le> NOW0" "start_time info \<le> time0"
    by (auto simp: timely_def)
  ultimately show ?thesis by simp
qed



text \<open>
  C8. Along every run of a tracer that started with an empty \<open>active_traces\<close>: a
  call leaves each row of \<open>traces\<close> as it is, unless it is an \<open>end_trace\<close> on the
  open id of that row, whose end timestamp and duration are null until then and set
  by it, the id leaving \<open>active_traces\<close>; a row with an end timestamp or a duration
  is never changed again; the end timestamp is not before the start timestamp when
  the clocks do not run backwards; and a new row appears only by \<open>start_trace\<close>, with
  null end timestamp and duration.
\<close>

theorem trace_row_lifecycle:
  assumes "initial self0" and "self = run self0 evs" and "self' = exec self e"
    and "i < length (traces (conn self))"
    and "r = traces (conn self) ! i" and "r' = traces (conn self') ! i"
  shows "length (traces (conn self)) \<le> length (traces (conn self')) \<and>
    (r' = r \<or>
      (\<exists>time NOW status info.
         e = End_trace time NOW (t_trace_id r) status \<and>
         active_traces self (t_trace_id r) = Some info \<and>
         active_traces self' (t_trace_id r) = None \<and>
         t_end_time r = None \<and> t_duration_ms r = None \<and>
         r' = r\<lparr>t_end_time := Some NOW,
                t_duration_ms := Some ((time - start_time info) * 1000),
                t_status := status\<rparr> \<and>
         (\<forall>clk. timely clk self0 \<longrightarrow> clocks_monotone clk (evs @ [e]) \<longrightarrow>
            t_start_time r \<le> NOW \<and> 0 \<le> (time - start_time info) * 1000))) \<and>
    (t_end_time r \<noteq> None \<or> t_duration_ms r \<noteq> None \<longrightarrow> r' = r) \<and>
    (\<forall>j. length (traces (conn self)) \<le> j \<longrightarrow> j < length (traces (conn self')) \<longrightarrow>
       (\<exists>uuid4 NOW time service_name operation_name.
          e = Start_trace uuid4 NOW time service_name operation_name \<and>
          traces (conn self') ! j =
            \<lparr>t_trace_id = uuid4, t_service_name = service_name,
             t_operation_name = operation_name, t_start_time = NOW,
             t_end_time = None, t_duration_ms = None,
             t_status = ''in_progress'', t_metadata = None\<rparr>))"
proof -
  from assms(1,2) have inv: "open_rows_null self"
    by (simp add: open_rows_null_run)
  from exec_old_row [OF inv assms(4), of e] assms(3,5,6)
  have step: "r' = r \<or>
      (\<exists>time NOW status info.
         e = End_trace time NOW (t_trace_id r) status \<and>
         active_traces self (t_trace_id r) = Some info \<and>
         active_traces self' (t_trace_id r) = None \<and>
         t_end_time r = None \<and> t_duration_ms r = None \<and>
         r' = r\<lparr>t_end_time := Some NOW,
                t_duration_ms := Some ((time - start_time info) * 1000),
                t_status := status\<rparr>)"
    by simp
  have clocks: "t_start_time r \<le> NOW \<and> 0 \<le> (time - start_time info) * 1000"
    if "e = End_trace time NOW (t_trace_id r) status"
      and "active_traces self (t_trace_id r) = Some info"
      and "timely clk self0" and "clocks_monotone clk (evs @ [e])"
    for time NOW status info clk
  proof -
    from that(3,4) assms(2) have "timely (foldl clock_readings clk evs) self"
      by (simp add: timely_run clocks_monotone_append)
    moreover from that(1,4)
    have "clocks_monotone (foldl clock_readings clk evs)
            [End_trace time NOW (t_trace_id r) status]"
      by (simp add: clocks_monotone_append)
    moreover from assms(4,5) have "r \<in> set (traces (conn self))" by simp
    ultimately show ?thesis using that(2) by (rule timely_end)
  qed
  from step clocks have first: "r' = r \<or>
      (\<exists>time NOW status info.
         e = End_trace time NOW (t_trace_id r) status \<and>
         active_traces self (t_trace_id r) = Some info \<and>
         active_traces self' (t_trace_id r) = None \<and>
         t_end_time r = None \<and> t_duration_ms r = None \<and>
         r' = r\<lparr>t_end_time := Some NOW,
                t_duration_ms := Some ((time - start_time info) * 1000),
                t_status := status\<rparr> \<and>
         (\<forall>clk. timely clk self0 \<longrightarrow> clocks_monotone clk (evs @ [e]) \<longrightarrow>
            t_start_time r \<le> NOW \<and> 0 \<le> (time - start_time info) * 1000))"
    by blast
  from step have once: "t_end_time r \<noteq> None \<or> t_duration_ms r \<noteq> None \<longrightarrow> r' = r"
    by auto
  from assms(3) have len: "length (traces (conn self)) \<le> length (traces (conn self'))"
    by (simp add: exec_length)
  from assms(3) have new: "\<forall>j. length (traces (conn self)) \<le> j \<longrightarrow>
       j < length (traces (conn self')) \<longrightarrow>
       (\<exists>uuid4 NOW time service_name operation_name.
          e = Start_trace uuid4 NOW time service_name operation_name \<and>
          traces (conn self') ! j =
            \<lparr>t_trace_id = uuid4, t_service_name = service_name,
             t_operation_name = operation_name, t_start_time = NOW,
             t_end_time = None, t_duration_ms = None,
             t_status = ''in_progress'', t_metadata = None\<rparr>)"
    by (auto dest: exec_new_row)
  from len first once new show ?thesis by blast
qed

theorem trace_row_lifecycle_witness:
  "initial fresh \<and>
   traces (conn (run fresh demo_calls)) ! 0 = trace_x_open \<and>
   traces (conn (exec (run fresh demo_calls) (End_trace (27 / 2) 13 ''x'' ''success''))) ! 0 =
     trace_x \<and>
   t_end_time trace_x_open = None \<and> t_duration_ms trace_x_open = None \<and>
   trace_x = trace_x_open\<lparr>t_end_time := Some 13, t_duration_ms := Some ((27 / 2 - 10) * 1000),
                          t_status := ''success''\<rparr> \<and>
   timely (0, 0) fresh \<and>
   clocks_monotone (0, 0) (demo_calls @ [End_trace (27 / 2) 13 ''x'' ''success'']) \<and>
   t_start_time trace_x_open \<le> 13 \<and>
   t_end_time trace_x \<noteq> None \<and>
   traces (conn (exec (run fresh (demo_calls @ [End_trace (27 / 2) 13 ''x'' ''success'']))
     (End_trace 20 20 ''x'' ''error''))) ! 0 = trace_x"
proof -
  let ?e = "End_trace (27 / 2) 13 ''x'' ''success''"
  have init: "initial fresh"
    by (simp add: initial_def fresh_def)
  have before: "traces (conn (run fresh demo_calls)) = [trace_x_open]"
    by (simp add: run_def demo_calls_def fresh_def start_trace_def create_span_def
        end_span_def update_span_def trace_x_open_def Let_def)
  have after: "traces (conn (run fresh (demo_calls @ [?e]))) = [trace_x]"
    by (simp add: run_def demo_calls_def fresh_def start_trace_def create_span_def
        end_span_def end_trace_def update_trace_def update_span_def trace_x_def Let_def)
  have len: "0 < length (traces (conn (run fresh demo_calls)))"
    and len': "0 < length (traces (conn (run fresh (demo_calls @ [?e]))))"
    by (simp_all add: before after)
  have timely: "timely (0, 0) fresh"
    by (simp add: timely_def fresh_def)
  have mono: "clocks_monotone (0, 0) (demo_calls @ [?e])"
    by (simp add: demo_calls_def)
  have rows: "t_end_time trace_x_open = None \<and> t_duration_ms trace_x_open = None \<and>
      trace_x = trace_x_open\<lparr>t_end_time := Some 13,
        t_duration_ms := Some ((27 / 2 - 10) * 1000), t_status := ''success''\<rparr> \<and>
      t_start_time trace_x_open \<le> 13 \<and> t_end_time trace_x \<noteq> None"
    by (simp add: trace_x_open_def trace_x_def)
  from trace_row_lifecycle [OF init refl refl len' refl refl, of "End_trace 20 20 ''x'' ''error''"]
    after rows
  have again: "traces (conn (exec (run fresh (demo_calls @ [?e]))
      (End_trace 20 20 ''x'' ''error''))) ! 0 = trace_x"
    by simp
  from trace_row_lifecycle [OF init refl refl len refl refl, of ?e]
    init before after timely mono rows again
  show ?thesis by (simp add: run_snoc)
qed

section \<open>Aggregator: the rows of the service summary\<close>

text \<open>
  C3 as stated fails. In the example's span table the services
  \<open>inventory-service\<close> and \<open>notification-service\<close> both average 80. The query
  sorts by \<open>avg_duration DESC\<close> only, so the result may list
  \<open>notification-service\<close> first, which is not ascending in the service name.
\<close>

theorem service_order_counterexample:
  "select_service_performance demo_db
     [stats_notification, stats_inventory, stats_user, stats_cache] \<and>
   avg_duration stats_notification = avg_duration stats_inventory \<and>
   g_service_name stats_inventory < g_service_name stats_notification \<and>
   \<not> sorted_wrt avg_desc_name_asc
     [stats_notification, stats_inventory, stats_user, stats_cache]"
proof -
  have groups: "group_by_service (spans demo_db) =
      [stats_inventory, stats_notification, stats_user, stats_cache]"
    by (simp add: group_by_service_def group_row_def group_durations_def sql_avg_def
        sql_max_def sql_min_def List.map_filter_simps demo_defs
        stats_inventory_def stats_notification_def stats_user_def stats_cache_def)
  have order: "sorted_wrt (\<lambda>a b. desc_order (avg_duration a) (avg_duration b))
      [stats_notification, stats_inventory, stats_user, stats_cache]"
    by (simp add: desc_order_def
        stats_inventory_def stats_notification_def stats_user_def stats_cache_def)
  have names: "g_service_name stats_inventory < g_service_name stats_notification"
    by (simp add: stats_inventory_def stats_notification_def)
  have tie: "avg_duration stats_notification = avg_duration stats_inventory"
    by (simp add: stats_inventory_def stats_notification_def)
  from names tie have "\<not> avg_desc_name_asc stats_notification stats_inventory"
    by (auto simp: avg_desc_name_asc_def)
  with groups order names tie show ?thesis
    by (simp add: select_service_performance_def add_mset_commute)
qed

lemma sql_max_Max: "ds \<noteq> [] \<Longrightarrow> sql_max ds = Some (Max (set ds))"
proof (cases ds)
  case Nil
  assume "ds \<noteq> []"
  with Nil show ?thesis by simp
next
  case (Cons d rest)
  have "Max (set (d # rest)) = fold max rest d" by (rule Max.set_eq_fold)
  with Cons show ?thesis by (simp add: sql_max_def)
qed

lemma sql_min_Min: "ds \<noteq> [] \<Longrightarrow> sql_min ds = Some (Min (set ds))"
proof (cases ds)
  case Nil
  assume "ds \<noteq> []"
  with Nil show ?thesis by simp
next
  case (Cons d rest)
  have "Min (set (d # rest)) = fold min rest d" by (rule Min.set_eq_fold)
  with Cons show ?thesis by (simp add: sql_min_def)
qed

lemma group_names: "map g_service_name (group_by_service xs) = remdups (map s_service_name xs)"
  by (simp add: group_by_service_def group_row_def o_def)

lemma group_by_service_row:
  assumes "row \<in> set (group_by_service xs)"
  shows "row = group_row xs (g_service_name row) \<and> g_service_name row \<in> set (map s_service_name xs)"
proof -
  from assms obtain n where n: "n \<in> set (map s_service_name xs)" "row = group_row xs n"
    by (auto simp: group_by_service_def)
  then have "g_service_name row = n" by (simp add: group_row_def)
  with n show ?thesis by simp
qed

lemma get_service_performance_rows:
  "\<forall>row\<in>set rows. avg_duration row \<noteq> None \<and> max_duration row \<noteq> None \<and>
      min_duration row \<noteq> None \<Longrightarrow>
   get_service_performance rows =
     Inr (map (\<lambda>row. (g_service_name row, span_count row, the (avg_duration row),
                      the (max_duration row), the (min_duration row))) rows)"
  by (induction rows) auto

text \<open>
  C3, as the code has it. The result of the query has one row for each service name
  of the span table, with the number of the service's spans and the average, maximum
  and minimum of their non-null durations (null when there is none), and descends in
  the average, a null average first. The query has no second sort key: the order of
  rows with equal averages is not determined. When no average is null, the loop
  prints the rows in the order of the result.
\<close>

theorem service_performance_rows:
  assumes "select_service_performance db rows"
  shows "distinct (map g_service_name rows) \<and>
         set (map g_service_name rows) = set (map s_service_name (spans db)) \<and>
         (\<forall>row\<in>set rows.
            span_count row =
              length (filter (\<lambda>s. s_service_name s = g_service_name row) (spans db)) \<and>
            (\<forall>ds. ds = List.map_filter s_duration_ms
                       (filter (\<lambda>s. s_service_name s = g_service_name row) (spans db)) \<longrightarrow>
               (ds = [] \<longrightarrow> avg_duration row = None \<and> max_duration row = None \<and>
                  min_duration row = None) \<and>
               (ds \<noteq> [] \<longrightarrow> avg_duration row = Some (sum_list ds / of_nat (length ds)) \<and>
                  max_duration row = Some (Max (set ds)) \<and>
                  min_duration row = Some (Min (set ds))))) \<and>
         sorted_wrt (\<lambda>a b. desc_order (avg_duration a) (avg_duration b)) rows \<and>
         ((\<forall>row\<in>set rows. avg_duration row \<noteq> None) \<longrightarrow>
            get_service_performance rows =
              Inr (map (\<lambda>row. (g_service_name row, span_count row, the (avg_duration row),
                               the (max_duration row), the (min_duration row))) rows))"
proof -
  from assms have perm: "mset rows = mset (group_by_service (spans db))"
    and sorted: "sorted_wrt (\<lambda>a b. desc_order (avg_duration a) (avg_duration b)) rows"
    by (simp_all add: select_service_performance_def)
  from perm have "mset (map g_service_name rows) =
      mset (map g_service_name (group_by_service (spans db)))"
    by simp
  then have names: "mset (map g_service_name rows) = mset (remdups (map s_service_name (spans db)))"
    by (simp only: group_names)
  from mset_eq_imp_distinct_iff [OF names]
  have distinct: "distinct (map g_service_name rows)" by simp
  from mset_eq_setD [OF names]
  have services: "set (map g_service_name rows) = set (map s_service_name (spans db))" by simp
  from perm have members: "set rows = set (group_by_service (spans db))"
    by (rule mset_eq_setD)
  have stats: "span_count row =
              length (filter (\<lambda>s. s_service_name s = g_service_name row) (spans db)) \<and>
            (\<forall>ds. ds = List.map_filter s_duration_ms
                       (filter (\<lambda>s. s_service_name s = g_service_name row) (spans db)) \<longrightarrow>
               (ds = [] \<longrightarrow> avg_duration row = None \<and> max_duration row = None \<and>
                  min_duration row = None) \<and>
               (ds \<noteq> [] \<longrightarrow> avg_duration row = Some (sum_list ds / of_nat (length ds)) \<and>
                  max_duration row = Some (Max (set ds)) \<and>
                  min_duration row = Some (Min (set ds))))"
    if "row \<in> set rows" for row
  proof -
    let ?ds = "group_durations (g_service_name row) (spans db)"
    from that members have "row = group_row (spans db) (g_service_name row)"
      by (simp add: group_by_service_row)
    then have fields:
      "span_count row =
         length (filter (\<lambda>s. s_service_name s = g_service_name row) (spans db))"
      "avg_duration row = sql_avg ?ds" "max_duration row = sql_max ?ds"
      "min_duration row = sql_min ?ds"
      by (metis group_row_def service_stats.select_convs)+
    have empty: "sql_avg [] = None" "sql_max [] = None" "sql_min [] = None"
      by (simp_all add: sql_avg_def sql_max_def sql_min_def)
    have avg: "?ds \<noteq> [] \<Longrightarrow> sql_avg ?ds = Some (sum_list ?ds / of_nat (length ?ds))"
      by (simp add: sql_avg_def)
    from fields empty avg sql_max_Max [of ?ds] sql_min_Min [of ?ds] show ?thesis
      by (auto simp: group_durations_def)
  qed
  have printed: "get_service_performance rows =
              Inr (map (\<lambda>row. (g_service_name row, span_count row, the (avg_duration row),
                               the (max_duration row), the (min_duration row))) rows)"
    if all: "\<forall>row\<in>set rows. avg_duration row \<noteq> None"
  proof (rule get_service_performance_rows, intro ballI)
    fix row assume row: "row \<in> set rows"
    let ?ds = "List.map_filter s_duration_ms
                 (filter (\<lambda>s. s_service_name s = g_service_name row) (spans db))"
    from stats [OF row] all row have "?ds \<noteq> []" by auto
    with stats [OF row] show "avg_duration row \<noteq> None \<and> max_duration row \<noteq> None \<and>
      min_duration row \<noteq> None" by simp
  qed
  from distinct services stats sorted printed show ?thesis by blast
qed

theorem service_performance_rows_witness:
  "select_service_performance xy_db [stats_y, stats_x] \<and>
   map g_service_name [stats_y, stats_x] = [''Y'', ''X''] \<and>
   span_count stats_x = 2 \<and> avg_duration stats_x = Some ((10 + 30) / 2) \<and>
   max_duration stats_x = Some 30 \<and> min_duration stats_x = Some 10 \<and>
   span_count stats_y = 1 \<and> avg_duration stats_y = Some 50 \<and>
   max_duration stats_y = Some 50 \<and> min_duration stats_y = Some 50 \<and>
   get_service_performance [stats_y, stats_x] = Inr [(''Y'', 1, 50, 50, 50), (''X'', 2, 20, 30, 10)]"
proof -
  have groups: "group_by_service (spans xy_db) = [stats_y, stats_x]"
    by (simp add: group_by_service_def group_row_def group_durations_def sql_avg_def
        sql_max_def sql_min_def List.map_filter_simps xy_db_def span_of_def
        stats_x_def stats_y_def)
  have order: "sorted_wrt (\<lambda>a b. desc_order (avg_duration a) (avg_duration b)) [stats_y, stats_x]"
    by (simp add: desc_order_def stats_x_def stats_y_def)
  from groups order have rows: "select_service_performance xy_db [stats_y, stats_x]"
    by (simp add: select_service_performance_def)
  have fields: "span_count stats_x = 2 \<and> avg_duration stats_x = Some ((10 + 30) / 2) \<and>
      max_duration stats_x = Some 30 \<and> min_duration stats_x = Some 10 \<and>
      span_count stats_y = 1 \<and> avg_duration stats_y = Some 50 \<and>
      max_duration stats_y = Some 50 \<and> min_duration stats_y = Some 50"
    by (simp add: stats_x_def stats_y_def)
  from service_performance_rows [OF rows] fields
  have "get_service_performance [stats_y, stats_x] =
      Inr [(''Y'', 1, 50, 50, 50), (''X'', 2, 20, 30, 10)]"
    by (simp add: stats_x_def stats_y_def)
  with rows fields show ?thesis
    by (simp add: stats_x_def stats_y_def)
qed

end
